theory Spec2Isabelle
  imports Main
begin

section \<open>Values of the Python program\<close>

text \<open>
  A Python \<^verbatim>\<open>bytes\<close> object is a list of bytes; a \<^typ>\<open>char\<close> of HOL is one byte.
  The program's own text (tags, attribute names and values) is ASCII and is kept as
  \<^typ>\<open>string\<close> too. The result of \<^verbatim>\<open>bytes.decode()\<close> is a Python \<^verbatim>\<open>str\<close>, a
  list of Unicode code points.
\<close>

type_synonym bytes = string

type_synonym unicode = "nat list"

datatype py_error = UnicodeDecodeError | ParseError | ValidationError

text \<open>
  An \<^verbatim>\<open>xml.etree.ElementTree.Element\<close>: tag, attribute dictionary (in insertion order) and
  child elements. The scripts never assign \<^verbatim>\<open>text\<close> or \<^verbatim>\<open>tail\<close>, which stay \<^verbatim>\<open>None\<close>.
\<close>

datatype element = Element (tag: string) (attrib: "(string \<times> string) list") (children: "element list")

text \<open>\<^verbatim>\<open>Element.set(key, value)\<close> is a dictionary store: an existing key keeps its place.\<close>

fun dict_store :: "string \<Rightarrow> string \<Rightarrow> (string \<times> string) list \<Rightarrow> (string \<times> string) list" where
  "dict_store k v [] = [(k, v)]"
| "dict_store k v ((k', v') # kvs) =
     (if k' = k then (k, v) # kvs else (k', v') # dict_store k v kvs)"

definition Element_set :: "string \<Rightarrow> string \<Rightarrow> element \<Rightarrow> element" where
  "Element_set key val e = Element (tag e) (dict_store key val (attrib e)) (children e)"

text \<open>
  \<^verbatim>\<open>ET.SubElement(parent, tag, attrib=...)\<close> appends a new element to the parent, in place.
  The scripts discard the child it returns; the model yields the parent as it is afterwards.
\<close>

definition SubElement :: "element \<Rightarrow> string \<Rightarrow> (string \<times> string) list \<Rightarrow> element" where
  "SubElement parent t a = Element (tag parent) (attrib parent) (children parent @ [Element t a []])"

section \<open>Serialisation: \<^verbatim>\<open>ET.tostring\<close>\<close>

definition digit :: "int \<Rightarrow> char" where
  "digit n = ''0123456789'' ! nat (n mod 10)"

definition pad2 :: "int \<Rightarrow> string" where
  "pad2 n = [digit (n div 10), digit n]"

definition pad3 :: "int \<Rightarrow> string" where
  "pad3 n = [digit (n div 100), digit (n div 10), digit n]"

definition pad4 :: "int \<Rightarrow> string" where
  "pad4 n = [digit (n div 1000), digit (n div 100), digit (n div 10), digit n]"

definition pad6 :: "int \<Rightarrow> string" where
  "pad6 n = [digit (n div 100000), digit (n div 10000), digit (n div 1000),
             digit (n div 100), digit (n div 10), digit n]"

text \<open>
  \<^verbatim>\<open>_escape_attrib\<close> replaces, in this order, \<^verbatim>\<open>&\<close>, \<^verbatim>\<open><\<close>, \<^verbatim>\<open>>\<close>, the double quote,
  carriage return, line feed and tab. No replacement text contains a character that a later
  replacement rewrites, so the chain of \<^verbatim>\<open>str.replace\<close> calls is a map over the characters.
\<close>

definition escape_char :: "char \<Rightarrow> string" where
  \<open>escape_char c =
     (if c = CHR ''&'' then ''&amp;''
      else if c = CHR ''<'' then ''&lt;''
      else if c = CHR ''>'' then ''&gt;''
      else if c = CHR 0x22 then ''&quot;''
      else if c = CHR 0x0D then ''&#13;''
      else if c = CHR 0x0A then ''&#10;''
      else if c = CHR 0x09 then ''&#09;''
      else [c])\<close>

definition escape_attrib :: "string \<Rightarrow> string" where
  "escape_attrib text = concat (map escape_char text)"

text \<open>
  \<^verbatim>\<open>_serialize_xml\<close> with \<^verbatim>\<open>short_empty_elements=True\<close>, for elements without text: the
  attributes are written in the order of the dictionary, which is the order of insertion.
\<close>

fun serialize_xml :: "element \<Rightarrow> string" where
  \<open>serialize_xml (Element t a cs) =
     ''<'' @ t @ concat (map (\<lambda>(k, v). '' '' @ k @ ''="'' @ escape_attrib v @ ''"'') a) @
     (if cs = [] then '' />''
      else ''>'' @ concat (map serialize_xml cs) @ ''</'' @ t @ ''>'')\<close>

text \<open>
  The default encoding of \<^verbatim>\<open>ET.tostring\<close> is \<^verbatim>\<open>us-ascii\<close> with the error handler
  \<^verbatim>\<open>xmlcharrefreplace\<close>: a character outside ASCII becomes a decimal character reference.
\<close>

definition xmlcharrefreplace :: "char \<Rightarrow> string" where
  "xmlcharrefreplace c =
     (if (of_char c :: nat) < 128 then [c] else ''&#'' @ pad3 (of_char c) @ '';'')"

definition tostring :: "element \<Rightarrow> bytes" where
  "tostring e = concat (map xmlcharrefreplace (serialize_xml e))"

section \<open>Decoding: \<^verbatim>\<open>bytes.decode()\<close>\<close>

text \<open>
  The default codec is strict UTF-8: only the well-formed byte sequences of the Unicode
  standard are accepted (no overlong forms, no surrogates, nothing above U+10FFFF).
\<close>

definition within :: "nat \<Rightarrow> nat \<Rightarrow> char \<Rightarrow> bool" where
  "within lo hi b = (lo \<le> of_char b \<and> of_char b \<le> hi)"

definition low6 :: "char \<Rightarrow> nat" where
  "low6 b = of_char b mod 64"

definition prepend :: "nat \<Rightarrow> py_error + unicode \<Rightarrow> py_error + unicode" where
  "prepend cp r = (case r of Inl e \<Rightarrow> Inl e | Inr cps \<Rightarrow> Inr (cp # cps))"

fun utf8_decode :: "bytes \<Rightarrow> py_error + unicode" where
  "utf8_decode [] = Inr []"
| "utf8_decode (b # bs) =
     (let n = (of_char b :: nat) in
      if n < 0x80 then prepend n (utf8_decode bs)
      else if 0xC2 \<le> n \<and> n \<le> 0xDF then
        (case bs of
           b1 # r \<Rightarrow>
             if within 0x80 0xBF b1
             then prepend ((n mod 32) * 64 + low6 b1) (utf8_decode r)
             else Inl UnicodeDecodeError
         | _ \<Rightarrow> Inl UnicodeDecodeError)
      else if 0xE0 \<le> n \<and> n \<le> 0xEF then
        (case bs of
           b1 # b2 # r \<Rightarrow>
             if within (if n = 0xE0 then 0xA0 else 0x80) (if n = 0xED then 0x9F else 0xBF) b1
                \<and> within 0x80 0xBF b2
             then prepend ((n mod 16) * 4096 + low6 b1 * 64 + low6 b2) (utf8_decode r)
             else Inl UnicodeDecodeError
         | _ \<Rightarrow> Inl UnicodeDecodeError)
      else if 0xF0 \<le> n \<and> n \<le> 0xF4 then
        (case bs of
           b1 # b2 # b3 # r \<Rightarrow>
             if within (if n = 0xF0 then 0x90 else 0x80) (if n = 0xF4 then 0x8F else 0xBF) b1
                \<and> within 0x80 0xBF b2 \<and> within 0x80 0xBF b3
             then prepend ((n mod 8) * 262144 + low6 b1 * 4096 + low6 b2 * 64 + low6 b3)
                    (utf8_decode r)
             else Inl UnicodeDecodeError
         | _ \<Rightarrow> Inl UnicodeDecodeError)
      else Inl UnicodeDecodeError)"

section \<open>The clock and \<^verbatim>\<open>pytak.cot_time\<close>\<close>

text \<open>
  An instant is a count of microseconds since 1970-01-01T00:00:00 UTC, the resolution of
  a Python \<^verbatim>\<open>datetime\<close>. The conversion of a day count to a calendar date is the usual
  one for the proleptic Gregorian calendar.
\<close>

definition civil_from_days :: "int \<Rightarrow> int \<times> int \<times> int" where
  "civil_from_days z =
     (let z' = z + 719468;
          era = z' div 146097;
          doe = z' mod 146097;
          yoe = (doe - doe div 1460 + doe div 36524 - doe div 146096) div 365;
          doy = doe - (365 * yoe + yoe div 4 - yoe div 100);
          mp = (5 * doy + 2) div 153;
          d = doy - (153 * mp + 2) div 5 + 1;
          m = (if mp < 10 then mp + 3 else mp - 9);
          y = yoe + era * 400 + (if m \<le> 2 then 1 else 0)
      in (y, m, d))"

text \<open>
  \<^verbatim>\<open>strftime("%Y-%m-%dT%H:%M:%S.%fZ")\<close>, the format \<^verbatim>\<open>pytak.W3C_XML_DATETIME\<close>, for the
  instants of the years 1000 to 9999, where the year has four digits.
\<close>

definition strftime :: "int \<Rightarrow> string" where
  "strftime t =
     (let us = t mod 1000000;
          s = t div 1000000;
          sod = s mod 86400;
          (y, m, d) = civil_from_days (s div 86400)
      in pad4 y @ ''-'' @ pad2 m @ ''-'' @ pad2 d @ ''T'' @
         pad2 (sod div 3600) @ '':'' @ pad2 (sod mod 3600 div 60) @ '':'' @ pad2 (sod mod 60) @
         ''.'' @ pad6 us @ ''Z'')"

text \<open>
  What a worker's code can observe and change. The system clock is the sequence of the
  instants its successive readings return; \<^verbatim>\<open>queue\<close> is the content of the worker's
  \<^verbatim>\<open>asyncio.Queue\<close>, oldest item first, and \<^verbatim>\<open>maxsize\<close> its bound (0 for a queue without
  bound, as in \<^verbatim>\<open>asyncio\<close>); \<^verbatim>\<open>config\<close> is the configuration section the worker was
  constructed with; \<^verbatim>\<open>trace\<close> records, in order, the calls that the scripts make.
\<close>

datatype action =
    Now int
  | Put bytes
  | Get bytes
  | Sleep nat
  | LogInfo string unicode

record state =
  readings :: "nat \<Rightarrow> int"
  reads :: nat
  queue :: "bytes list"
  maxsize :: nat
  config :: "(string \<times> string) list"
  trace :: "action list"

definition datetime_now :: "state \<Rightarrow> int \<times> state" where
  "datetime_now s =
     (readings s (reads s),
      s\<lparr>reads := Suc (reads s), trace := trace s @ [Now (readings s (reads s))]\<rparr>)"

text \<open>
  \<^verbatim>\<open>pytak.cot_time(cot_stale=None)\<close>: the current UTC time, moved forward by
  \<^verbatim>\<open>cot_stale\<close> seconds when the argument is given and not zero, in W3C XML format.
\<close>

definition cot_time :: "int option \<Rightarrow> state \<Rightarrow> string \<times> state" where
  "cot_time cot_stale s =
     (let (t, s') = datetime_now s;
          t' = (case cot_stale of
                  None \<Rightarrow> t
                | Some n \<Rightarrow> if n \<noteq> 0 then t + n * 1000000 else t)
      in (strftime t', s'))"

section \<open>The generators\<close>

text \<open>
  \<^verbatim>\<open>send.py\<close>, \<^verbatim>\<open>tak_pong\<close>. \<open>tak_pong_root\<close> is the body up to the \<^verbatim>\<open>return\<close>: it yields the
  element \<^verbatim>\<open>root\<close> as it stands there; \<open>tak_pong\<close> returns \<^verbatim>\<open>ET.tostring(root)\<close>.
\<close>

definition tak_pong_root :: "state \<Rightarrow> element \<times> state" where
  "tak_pong_root s0 =
     (let root = Element ''event'' [] [];
          root = Element_set ''version'' ''2.0'' root;
          root = Element_set ''type'' ''t-x-d-d'' root;
          root = Element_set ''uid'' ''takPong'' root;
          root = Element_set ''how'' ''m-g'' root;
          (t1, s1) = cot_time None s0;
          root = Element_set ''time'' t1 root;
          (t2, s2) = cot_time None s1;
          root = Element_set ''start'' t2 root;
          (t3, s3) = cot_time (Some 3600) s2;
          root = Element_set ''stale'' t3 root
      in (root, s3))"

definition tak_pong :: "state \<Rightarrow> bytes \<times> state" where
  "tak_pong s0 = (let (root, s3) = tak_pong_root s0 in (tostring root, s3))"

text \<open>\<^verbatim>\<open>tak_test.py\<close>, \<^verbatim>\<open>gen_cot\<close>, split in the same way.\<close>

definition gen_cot_root :: "state \<Rightarrow> element \<times> state" where
  "gen_cot_root s0 =
     (let root = Element ''event'' [] [];
          root = Element_set ''version'' ''2.0'' root;
          root = Element_set ''type'' ''a-h-A-M-A'' root;
          root = Element_set ''uid'' ''name_your_marker'' root;
          root = Element_set ''how'' ''m-g'' root;
          (t1, s1) = cot_time None s0;
          root = Element_set ''time'' t1 root;
          (t2, s2) = cot_time None s1;
          root = Element_set ''start'' t2 root;
          (t3, s3) = cot_time (Some 60) s2;
          root = Element_set ''stale'' t3 root;
          pt_attr = [(''lat'', ''40.781789''), (''lon'', ''-73.968698''), (''hae'', ''0''),
                     (''ce'', ''10''), (''le'', ''10'')];
          root = SubElement root ''point'' pt_attr
      in (root, s3))"

definition gen_cot :: "state \<Rightarrow> bytes \<times> state" where
  "gen_cot s0 = (let (root, s3) = gen_cot_root s0 in (tostring root, s3))"

section \<open>The workers\<close>

text \<open>
  What the scripts use of the library. \<^verbatim>\<open>asyncio.Queue.full()\<close> holds of a bounded queue
  that has reached its bound. \<^verbatim>\<open>pytak.QueueWorker.put_queue\<close> first removes the oldest item
  when the queue is full, then adds the item at the end. \<^verbatim>\<open>asyncio.sleep\<close> and
  \<^verbatim>\<open>self._logger.info\<close> are recorded with their arguments.
\<close>

definition queue_full :: "state \<Rightarrow> bool" where
  "queue_full s = (0 < maxsize s \<and> maxsize s \<le> length (queue s))"

definition put_queue :: "bytes \<Rightarrow> state \<Rightarrow> state" where
  "put_queue data s =
     s\<lparr>queue := (if queue_full s then tl (queue s) else queue s) @ [data],
       trace := trace s @ [Put data]\<rparr>"

definition asyncio_sleep :: "nat \<Rightarrow> state \<Rightarrow> state" where
  "asyncio_sleep n s = s\<lparr>trace := trace s @ [Sleep n]\<rparr>"

definition logger_info :: "string \<Rightarrow> unicode \<Rightarrow> state \<Rightarrow> state" where
  "logger_info fmt arg s = s\<lparr>trace := trace s @ [LogInfo fmt arg]\<rparr>"

subsection \<open>\<^verbatim>\<open>send.py\<close>: \<^verbatim>\<open>MySerializer\<close>\<close>

definition MySerializer_handle_data :: "bytes \<Rightarrow> state \<Rightarrow> state" where
  "MySerializer_handle_data data s = (let event = data in put_queue event s)"

text \<open>One pass through the body of the \<^verbatim>\<open>while True\<close> loop of \<^verbatim>\<open>MySerializer.run\<close>.\<close>

definition MySerializer_body :: "state \<Rightarrow> state" where
  "MySerializer_body s =
     (let (data, s1) = tak_pong s;
          s2 = MySerializer_handle_data data s1
      in asyncio_sleep 20 s2)"

text \<open>The loop never ends by itself; \<open>MySerializer_run n\<close> is its first \<open>n\<close> passes.\<close>

fun MySerializer_run :: "nat \<Rightarrow> state \<Rightarrow> state" where
  "MySerializer_run 0 s = s"
| "MySerializer_run (Suc n) s = MySerializer_run n (MySerializer_body s)"

subsection \<open>\<^verbatim>\<open>tak_test.py\<close>: \<^verbatim>\<open>MySender\<close> and \<^verbatim>\<open>MyReceiver\<close>\<close>

definition MySender_handle_data :: "bytes \<Rightarrow> state \<Rightarrow> state" where
  "MySender_handle_data data s = put_queue data s"

definition MySender_body :: "state \<Rightarrow> py_error + state" where
  "MySender_body s =
     (let (data, s1) = gen_cot s in
      case utf8_decode data of
        Inl e \<Rightarrow> Inl e
      | Inr text \<Rightarrow>
          (let s2 = logger_info ''Sending:\<newline>%s\<newline>'' text s1;
               s3 = MySender_handle_data data s2
           in Inr (asyncio_sleep 5 s3)))"

fun MySender_run :: "nat \<Rightarrow> state \<Rightarrow> py_error + state" where
  "MySender_run 0 s = Inr s"
| "MySender_run (Suc n) s =
     (case MySender_body s of Inl e \<Rightarrow> Inl e | Inr s' \<Rightarrow> MySender_run n s')"

definition MyReceiver_handle_data :: "bytes \<Rightarrow> state \<Rightarrow> py_error + state" where
  "MyReceiver_handle_data data s =
     (case utf8_decode data of
        Inl e \<Rightarrow> Inl e
      | Inr text \<Rightarrow> Inr (logger_info ''Received:\<newline>%s\<newline>'' text s))"

text \<open>
  \<^verbatim>\<open>await self.queue.get()\<close> removes and returns the oldest item; on an empty queue the
  worker waits.
\<close>

definition queue_get :: "state \<Rightarrow> (bytes \<times> state) option" where
  "queue_get s =
     (case queue s of
        [] \<Rightarrow> None
      | data # rest \<Rightarrow> Some (data, s\<lparr>queue := rest, trace := trace s @ [Get data]\<rparr>))"

text \<open>
  How \<^verbatim>\<open>MyReceiver.run\<close> ends on a queue that receives no further items: the loop has no
  exit, so the worker is either waiting on the empty queue or an exception has left \<^verbatim>\<open>run\<close>.
\<close>

datatype outcome = Waiting state | Raised py_error state

function MyReceiver_run :: "state \<Rightarrow> outcome" where
  "MyReceiver_run s =
     (case queue_get s of
        None \<Rightarrow> Waiting s
      | Some (data, s1) \<Rightarrow>
          (case MyReceiver_handle_data data s1 of
             Inl e \<Rightarrow> Raised e s1
           | Inr s2 \<Rightarrow> MyReceiver_run s2))"
  by pat_completeness auto
termination
  by (relation "measure (\<lambda>s. length (queue s))")
     (auto simp: queue_get_def MyReceiver_handle_data_def logger_info_def
           split: list.splits sum.splits)

declare MyReceiver_run.simps [simp del]

section \<open>Decoding an event\<close>























section \<open>The process of \<^verbatim>\<open>tak_test.py\<close>\<close>

text \<open>
  Modelled from the spec: the event loop that runs the workers is not code of the
  repository. \<^verbatim>\<open>main\<close> registers one \<^verbatim>\<open>MySender\<close> (on the transmit queue) and one
  \<^verbatim>\<open>MyReceiver\<close> (on the receive queue) and hands them to the library. By section 5 of the
  spec the workers run as tasks of one execution context, under cooperative scheduling:
  a task runs from one suspension point to the next (the timed wait of a producer, the
  wait of a consumer on its queue), and the transport bridge puts the items it receives on
  the inbound queue. By section 7 an error that ends a worker stops that worker only.

  A task is alive at a suspension point of its loop, or has ended with an exception. A
  step of the process is one pass of the sender's loop, one pass of the receiver's loop,
  which needs an item on the receive queue, or the arrival of an item on the receive
  queue, which needs room there.
\<close>

datatype task = Live state | Dead py_error state

inductive step :: "task \<times> task \<Rightarrow> task \<times> task \<Rightarrow> bool" where
  sender: "MySender_body s = Inr s' \<Longrightarrow> step (Live s, t) (Live s', t)"
| sender_raises: "MySender_body s = Inl e \<Longrightarrow> step (Live s, t) (Dead e s, t)"
| receiver: "queue_get r = Some (data, r1) \<Longrightarrow> MyReceiver_handle_data data r1 = Inr r'
     \<Longrightarrow> step (t, Live r) (t, Live r')"
| receiver_raises: "queue_get r = Some (data, r1) \<Longrightarrow> MyReceiver_handle_data data r1 = Inl e
     \<Longrightarrow> step (t, Live r) (t, Dead e r1)"
| deliver: "\<not> queue_full r \<Longrightarrow> step (t, Live r) (t, Live (r\<lparr>queue := queue r @ [data]\<rparr>))"

section \<open>Notions used in the statements and proofs\<close>

text \<open>Characters that are ASCII and that neither \<open>escape_char\<close> nor the encoder rewrites.\<close>

definition plain :: "char \<Rightarrow> bool" where
  \<open>plain c = ((of_char c :: nat) < 128 \<and> c \<notin> set ''&<>"'' \<and>
              c \<noteq> CHR 0x0D \<and> c \<noteq> CHR 0x0A \<and> c \<noteq> CHR 0x09)\<close>

text \<open>The state after three readings of the clock: nothing else has changed.\<close>

definition three_reads :: "state \<Rightarrow> state" where
  "three_reads s = s\<lparr>reads := reads s + 3,
     trace := trace s @ [Now (readings s (reads s)), Now (readings s (reads s + 1)),
                         Now (readings s (reads s + 2))]\<rparr>"

text \<open>An element with the values of its three timestamp attributes blanked.\<close>

definition without_times :: "element \<Rightarrow> element" where
  "without_times e =
     Element (tag e)
       (map (\<lambda>(k, v). (k, if k \<in> {''time'', ''start'', ''stale''} then [] else v)) (attrib e))
       (children e)"

text \<open>
  A clock that advances by five microseconds between two readings, starting at
  2025-11-03T16:00:00 UTC, with an empty queue of bound 100, empty configuration and trace.
\<close>

definition s_ex :: state where
  "s_ex = \<lparr>readings = (\<lambda>n. 1762185600000000 + 5 * int n), reads = 0, queue = [],
           maxsize = 100, config = [], trace = []\<rparr>"

text \<open>
  A clock that reads 2025-11-03T16:00:00 UTC twice and is then set back by 120 seconds, so
  that its third reading is 15:58:00; the rest as before.
\<close>

definition s_back :: state where
  "s_back = \<lparr>readings = (\<lambda>n. if n < 2 then 1762185600000000 else 1762185480000000),
             reads = 0, queue = [], maxsize = 100, config = [], trace = []\<rparr>"







section \<open>Serialisation of the generators' elements\<close>

lemma digit_cases: "digit n \<in> set ''0123456789''"
proof -
  have "n mod 10 = 0 \<or> n mod 10 = 1 \<or> n mod 10 = 2 \<or> n mod 10 = 3 \<or> n mod 10 = 4 \<or>
        n mod 10 = 5 \<or> n mod 10 = 6 \<or> n mod 10 = 7 \<or> n mod 10 = 8 \<or> n mod 10 = 9"
    by presburger
  then show ?thesis unfolding digit_def by auto
qed

lemma plain_digit: "plain (digit n)"
  using digit_cases [of n] by (auto simp: plain_def)

lemma plain_pads: "list_all plain (pad2 n)" "list_all plain (pad4 n)" "list_all plain (pad6 n)"
  by (simp_all add: pad2_def pad4_def pad6_def plain_digit)

lemma plain_strftime: "list_all plain (strftime t)"
  by (simp add: strftime_def Let_def plain_pads plain_def split: prod.splits)

lemma ascii_strftime: "list_all (\<lambda>c. (of_char c :: nat) < 128) (strftime t)"
  using plain_strftime [of t] by (auto simp: list_all_iff plain_def)

lemma escape_char_plain: "plain c \<Longrightarrow> escape_char c = [c]"
  by (auto simp: plain_def escape_char_def)

lemma escape_attrib_plain: "list_all plain v \<Longrightarrow> escape_attrib v = v"
  by (induction v) (simp_all add: escape_attrib_def escape_char_plain)

lemma xmlcharrefreplace_plain: "plain c \<Longrightarrow> xmlcharrefreplace c = [c]"
  by (simp add: plain_def xmlcharrefreplace_def)

lemma encode_plain: "list_all plain v \<Longrightarrow> concat (map xmlcharrefreplace v) = v"
  by (induction v) (simp_all add: xmlcharrefreplace_plain)

lemma prepend_Inr: "prepend cp (Inr cps) = Inr (cp # cps)"
  by (simp add: prepend_def)

lemma utf8_decode_ascii:
  "list_all (\<lambda>c. (of_char c :: nat) < 128) bs \<Longrightarrow> utf8_decode bs = Inr (map of_char bs)"
  by (induction bs) (simp_all add: prepend_Inr)

lemma cot_time_None:
  "cot_time None s = (strftime (readings s (reads s)),
     s\<lparr>reads := Suc (reads s), trace := trace s @ [Now (readings s (reads s))]\<rparr>)"
  by (simp add: cot_time_def datetime_now_def)

lemma cot_time_Some:
  "n \<noteq> 0 \<Longrightarrow> cot_time (Some n) s = (strftime (readings s (reads s) + n * 1000000),
     s\<lparr>reads := Suc (reads s), trace := trace s @ [Now (readings s (reads s))]\<rparr>)"
  by (simp add: cot_time_def datetime_now_def)

lemma tak_pong_root_eq:
  "tak_pong_root s =
     (Element ''event''
        [(''version'', ''2.0''), (''type'', ''t-x-d-d''), (''uid'', ''takPong''), (''how'', ''m-g''),
         (''time'', strftime (readings s (reads s))),
         (''start'', strftime (readings s (reads s + 1))),
         (''stale'', strftime (readings s (reads s + 2) + 3600000000))] [],
      three_reads s)"
  by (simp add: tak_pong_root_def cot_time_None cot_time_Some Element_set_def three_reads_def)

lemma gen_cot_root_eq:
  "gen_cot_root s =
     (Element ''event''
        [(''version'', ''2.0''), (''type'', ''a-h-A-M-A''), (''uid'', ''name_your_marker''),
         (''how'', ''m-g''),
         (''time'', strftime (readings s (reads s))),
         (''start'', strftime (readings s (reads s + 1))),
         (''stale'', strftime (readings s (reads s + 2) + 60000000))]
        [Element ''point'' [(''lat'', ''40.781789''), (''lon'', ''-73.968698''), (''hae'', ''0''),
                            (''ce'', ''10''), (''le'', ''10'')] []],
      three_reads s)"
  by (simp add: gen_cot_root_def cot_time_None cot_time_Some Element_set_def SubElement_def
      three_reads_def)

lemma tak_pong_bytes:
  \<open>fst (tak_pong s) =
     ''<event version="2.0" type="t-x-d-d" uid="takPong" how="m-g" time="'' @
     strftime (readings s (reads s)) @ ''" start="'' @ strftime (readings s (reads s + 1)) @
     ''" stale="'' @ strftime (readings s (reads s + 2) + 3600000000) @ ''" />''\<close>
  by (simp add: tak_pong_def tak_pong_root_eq tostring_def escape_attrib_plain plain_strftime
      encode_plain plain_def xmlcharrefreplace_def)

lemma gen_cot_bytes:
  \<open>fst (gen_cot s) =
     ''<event version="2.0" type="a-h-A-M-A" uid="name_your_marker" how="m-g" time="'' @
     strftime (readings s (reads s)) @ ''" start="'' @ strftime (readings s (reads s + 1)) @
     ''" stale="'' @ strftime (readings s (reads s + 2) + 60000000) @
     ''"><point lat="40.781789" lon="-73.968698" hae="0" ce="10" le="10" /></event>''\<close>
  by (simp add: gen_cot_def gen_cot_root_eq tostring_def escape_attrib_plain plain_strftime
      encode_plain plain_def xmlcharrefreplace_def)

lemma snd_tak_pong: "snd (tak_pong s) = three_reads s"
  by (simp add: tak_pong_def tak_pong_root_eq)

lemma snd_gen_cot: "snd (gen_cot s) = three_reads s"
  by (simp add: gen_cot_def gen_cot_root_eq)

lemma gen_cot_ascii: "list_all (\<lambda>c. (of_char c :: nat) < 128) (fst (gen_cot s))"
  by (simp add: gen_cot_bytes ascii_strftime)

section \<open>Parsing what \<open>tostring\<close> writes\<close>










































section \<open>One pass of a producer's loop\<close>

lemma MySerializer_body_eq:
  "MySerializer_body s =
     (three_reads s)\<lparr>queue := (if queue_full s then tl (queue s) else queue s) @ [fst (tak_pong s)],
        trace := trace (three_reads s) @ [Put (fst (tak_pong s)), Sleep 20]\<rparr>"
  by (simp add: MySerializer_body_def MySerializer_handle_data_def put_queue_def asyncio_sleep_def
      split_beta snd_tak_pong three_reads_def queue_full_def)

lemma MySender_body_eq:
  "MySender_body s =
     Inr ((three_reads s)\<lparr>queue := (if queue_full s then tl (queue s) else queue s) @ [fst (gen_cot s)],
        trace := trace (three_reads s) @
          [LogInfo ''Sending:\<newline>%s\<newline>'' (map of_char (fst (gen_cot s))),
           Put (fst (gen_cot s)), Sleep 5]\<rparr>)"
  by (simp add: MySender_body_def MySender_handle_data_def put_queue_def asyncio_sleep_def
      logger_info_def split_beta snd_gen_cot three_reads_def utf8_decode_ascii gen_cot_ascii
      queue_full_def)

lemma MySender_body_fields:
  "\<exists>s1. MySender_body s = Inr s1 \<and> readings s1 = readings s \<and> reads s1 = reads s + 3 \<and>
     queue s1 = (if queue_full s then tl (queue s) else queue s) @ [fst (gen_cot s)] \<and>
     trace s1 = trace s @
       [Now (readings s (reads s)), Now (readings s (reads s + 1)), Now (readings s (reads s + 2)),
        LogInfo ''Sending:\<newline>%s\<newline>'' (map of_char (fst (gen_cot s))),
        Put (fst (gen_cot s)), Sleep 5]"
  by (simp add: MySender_body_eq three_reads_def)

section \<open>The loop of \<^verbatim>\<open>MyReceiver.run\<close>\<close>

lemma MyReceiver_run_empty: "queue r = [] \<Longrightarrow> MyReceiver_run r = Waiting r"
  by (subst MyReceiver_run.simps) (simp add: queue_get_def)

lemma MyReceiver_run_item:
  "queue r = data # q \<Longrightarrow>
   MyReceiver_run r =
     (case utf8_decode data of
        Inl e \<Rightarrow> Raised e (r\<lparr>queue := q, trace := trace r @ [Get data]\<rparr>)
      | Inr text \<Rightarrow>
          MyReceiver_run (r\<lparr>queue := q,
            trace := trace r @ [Get data, LogInfo ''Received:\<newline>%s\<newline>'' text]\<rparr>))"
  by (subst MyReceiver_run.simps)
     (simp add: queue_get_def MyReceiver_handle_data_def logger_info_def split: sum.splits)

section \<open>Concrete values\<close>

lemma decode_truncated_ex: "utf8_decode ''<event'' = Inr [60, 101, 118, 101, 110, 116]"
  by (simp add: prepend_Inr)

lemma decode_event_ex:
  "utf8_decode ''<event />'' = Inr [60, 101, 118, 101, 110, 116, 32, 47, 62]"
  by (simp add: prepend_Inr)

lemma strftime_time_ex: "strftime 1762185600000000 = ''2025-11-03T16:00:00.000000Z''"
  by code_simp




lemma step_receiver_waiting:
  assumes "queue r = []" and "step (Live s, Live r) p"
  shows "\<exists>r'. snd p = Live r' \<and> trace r' = trace r"
  using assms(2,1) by (cases rule: step.cases) (auto simp: queue_get_def)

lemma strftime_back_stale_ex: "strftime 1762185540000000 = ''2025-11-03T15:59:00.000000Z''"
  by code_simp

lemma strftime_back_pong_stale_ex: "strftime 1762189080000000 = ''2025-11-03T16:58:00.000000Z''"
  by code_simp

lemma strftime_minute_ex: "strftime 1762185660000000 = ''2025-11-03T16:01:00.000000Z''"
  by code_simp

lemma strftime_hour_ex: "strftime 1762189200000000 = ''2025-11-03T17:00:00.000000Z''"
  by code_simp

lemma gen_cot_root_back:
  "fst (gen_cot_root s_back) =
     Element ''event''
       [(''version'', ''2.0''), (''type'', ''a-h-A-M-A''), (''uid'', ''name_your_marker''),
        (''how'', ''m-g''), (''time'', ''2025-11-03T16:00:00.000000Z''),
        (''start'', ''2025-11-03T16:00:00.000000Z''), (''stale'', ''2025-11-03T15:59:00.000000Z'')]
       [Element ''point'' [(''lat'', ''40.781789''), (''lon'', ''-73.968698''), (''hae'', ''0''),
                           (''ce'', ''10''), (''le'', ''10'')] []]"
  by (simp add: gen_cot_root_eq s_back_def strftime_time_ex strftime_back_stale_ex)

lemma tak_pong_root_back:
  "fst (tak_pong_root s_back) =
     Element ''event''
       [(''version'', ''2.0''), (''type'', ''t-x-d-d''), (''uid'', ''takPong''),
        (''how'', ''m-g''), (''time'', ''2025-11-03T16:00:00.000000Z''),
        (''start'', ''2025-11-03T16:00:00.000000Z''), (''stale'', ''2025-11-03T16:58:00.000000Z'')]
       []"
  by (simp add: tak_pong_root_eq s_back_def strftime_time_ex strftime_back_pong_stale_ex)

lemma gen_cot_bytes_back:
  \<open>fst (gen_cot s_back) =
     ''<event version="2.0" type="a-h-A-M-A" uid="name_your_marker" how="m-g" '' @
     ''time="2025-11-03T16:00:00.000000Z" start="2025-11-03T16:00:00.000000Z" '' @
     ''stale="2025-11-03T15:59:00.000000Z">'' @
     ''<point lat="40.781789" lon="-73.968698" hae="0" ce="10" le="10" /></event>''\<close>
  by (simp add: gen_cot_bytes s_back_def strftime_time_ex strftime_back_stale_ex)



section \<open>The claims\<close>

text \<open>
  C1, as stated, fails. \<^verbatim>\<open>MyReceiver\<close> never parses an item and has no handler for an
  exception. On the queue \<^verbatim>\<open>[b"\xff", b"<event />"]\<close> the first item is not UTF-8:
  \<^verbatim>\<open>data.decode()\<close> raises \<^verbatim>\<open>UnicodeDecodeError\<close>, which leaves \<open>handle_data\<close> and \<open>run\<close>;
  nothing is logged and the second item stays on the queue. On the queue \<^verbatim>\<open>[b"<event"]\<close>
  the item is no event, yet what is logged is the item under \<^verbatim>\<open>Received:\<close>, not a parse
  failure.
\<close>

theorem receiver_malformed_counterexample:
  "MyReceiver_run (s_ex\<lparr>queue := [[CHR 0xFF], ''<event />'']\<rparr>) =
     Raised UnicodeDecodeError (s_ex\<lparr>queue := [''<event />''], trace := [Get [CHR 0xFF]]\<rparr>) \<and>
   MyReceiver_run (s_ex\<lparr>queue := [''<event'']\<rparr>) =
     Waiting (s_ex\<lparr>queue := [],
       trace := [Get ''<event'',
                 LogInfo ''Received:\<newline>%s\<newline>'' [60, 101, 118, 101, 110, 116]]\<rparr>)"
proof -
  have "MyReceiver_run (s_ex\<lparr>queue := [[CHR 0xFF], ''<event />'']\<rparr>) =
     Raised UnicodeDecodeError (s_ex\<lparr>queue := [''<event />''], trace := [Get [CHR 0xFF]]\<rparr>)"
    by (subst MyReceiver_run_item [where data = "[CHR 0xFF]" and q = "[''<event />'']"])
       (simp_all add: s_ex_def)
  moreover have "MyReceiver_run (s_ex\<lparr>queue := [''<event'']\<rparr>) =
     Waiting (s_ex\<lparr>queue := [],
       trace := [Get ''<event'',
                 LogInfo ''Received:\<newline>%s\<newline>'' [60, 101, 118, 101, 110, 116]]\<rparr>)"
    by (subst MyReceiver_run_item [where data = "''<event''" and q = "[]"])
       (simp_all add: s_ex_def decode_truncated_ex MyReceiver_run_empty del: utf8_decode.simps)
  ultimately show ?thesis by simp
qed

text \<open>
  C1, amended. Every item of the inbound queue that is valid UTF-8, an event or not, is
  logged as decoded text under \<^verbatim>\<open>Received:\<close>, and the loop goes on with the rest of the
  queue: the run on \<open>data # q\<close> is the run on \<open>q\<close> after the item was taken and logged.
\<close>

theorem receiver_logs_decodable_item_and_continues:
  "utf8_decode data = Inr text \<Longrightarrow>
   MyReceiver_run (s\<lparr>queue := data # q\<rparr>) =
     MyReceiver_run (s\<lparr>queue := q,
       trace := trace s @ [Get data, LogInfo ''Received:\<newline>%s\<newline>'' text]\<rparr>)"
  by (subst MyReceiver_run_item [where data = data and q = q]) simp_all

theorem receiver_logs_decodable_item_and_continues_witness:
  "utf8_decode ''<event'' = Inr [60, 101, 118, 101, 110, 116] \<and>
   MyReceiver_run (s_ex\<lparr>queue := [''<event'', ''<event />'']\<rparr>) =
     MyReceiver_run (s_ex\<lparr>queue := [''<event />''],
       trace := trace s_ex @ [Get ''<event'',
                 LogInfo ''Received:\<newline>%s\<newline>'' [60, 101, 118, 101, 110, 116]]\<rparr>)"
  using receiver_logs_decodable_item_and_continues
      [OF decode_truncated_ex, where s = s_ex and q = "[''<event />'']"]
    decode_truncated_ex by simp

text \<open>
  C2: a defect of the code. The comment in \<open>gen_cot\<close> says that stale is set 60 seconds
  after start, as the claim does, but start and stale come from two readings of the clock.
  When the clock is set back by 120 seconds between the two readings, the event of
  \<open>gen_cot\<close> has start 16:00:00 and stale 15:59:00, before start, where start plus 60
  seconds is 16:01:00; the event of \<open>tak_pong\<close> has stale 16:58:00, where start plus 3600
  seconds is 17:00:00. Both events are serialised and returned.
\<close>

theorem stale_differs_from_start_plus_offset:
  "readings s_back 1 = 1762185600000000 \<and>
   map_of (attrib (fst (gen_cot_root s_back))) ''start'' = Some (strftime 1762185600000000) \<and>
   strftime 1762185600000000 = ''2025-11-03T16:00:00.000000Z'' \<and>
   map_of (attrib (fst (gen_cot_root s_back))) ''stale'' = Some ''2025-11-03T15:59:00.000000Z'' \<and>
   strftime (1762185600000000 + 60 * 1000000) = ''2025-11-03T16:01:00.000000Z'' \<and>
   map_of (attrib (fst (tak_pong_root s_back))) ''start'' = Some (strftime 1762185600000000) \<and>
   map_of (attrib (fst (tak_pong_root s_back))) ''stale'' = Some ''2025-11-03T16:58:00.000000Z'' \<and>
   strftime (1762185600000000 + 3600 * 1000000) = ''2025-11-03T17:00:00.000000Z'' \<and>
   fst (gen_cot s_back) = tostring (fst (gen_cot_root s_back)) \<and>
   fst (tak_pong s_back) = tostring (fst (tak_pong_root s_back))"
proof -
  have "readings s_back 1 = 1762185600000000"
    by (simp add: s_back_def)
  moreover have "fst (gen_cot s_back) = tostring (fst (gen_cot_root s_back))"
    "fst (tak_pong s_back) = tostring (fst (tak_pong_root s_back))"
    by (simp_all add: gen_cot_def tak_pong_def split_beta)
  ultimately show ?thesis
    by (simp add: gen_cot_root_back tak_pong_root_back strftime_time_ex strftime_minute_ex
        strftime_hour_ex)
qed

text \<open>
  C3, as stated, fails in its last part: the interval is not configurable. No
  configuration of the worker makes a pass of \<^verbatim>\<open>MySerializer.run\<close> end with anything but a
  suspension of 20 seconds, or a pass of \<^verbatim>\<open>MySender.run\<close> with anything but 5 seconds.
\<close>

theorem interval_not_configurable:
  "\<not> (\<exists>c. last (trace (MySerializer_body (s_ex\<lparr>config := c\<rparr>))) \<noteq> Sleep 20) \<and>
   \<not> (\<exists>c s'. MySender_body (s_ex\<lparr>config := c\<rparr>) = Inr s' \<and> last (trace s') \<noteq> Sleep 5)"
  by (simp add: MySerializer_body_eq MySender_body_eq)

text \<open>
  C3, amended. In every pass of a producer's loop the steps come in one order: the event
  is built (three readings of the clock), its encoding is put on the queue through
  \<open>handle_data\<close> (\<^verbatim>\<open>MySender\<close> logs the decoded event just before), and the worker suspends
  for a fixed time, 20 seconds in \<^verbatim>\<open>MySerializer\<close> and 5 seconds in \<^verbatim>\<open>MySender\<close>, whatever the
  configuration \<open>c\<close> of the worker.
\<close>

theorem producer_pass_order_fixed_interval:
  "trace (MySerializer_body (s\<lparr>config := c\<rparr>)) =
     trace s @ [Now (readings s (reads s)), Now (readings s (reads s + 1)),
                Now (readings s (reads s + 2)),
                Put (fst (tak_pong s)), Sleep 20] \<and>
   (\<exists>s'. MySender_body (s\<lparr>config := c\<rparr>) = Inr s' \<and>
      trace s' =
        trace s @ [Now (readings s (reads s)), Now (readings s (reads s + 1)),
                   Now (readings s (reads s + 2)),
                   LogInfo ''Sending:\<newline>%s\<newline>'' (map of_char (fst (gen_cot s))),
                   Put (fst (gen_cot s)), Sleep 5])"
  by (simp add: MySerializer_body_eq MySender_body_eq three_reads_def tak_pong_bytes gen_cot_bytes)

text \<open>
  C4: the same defect as C2, seen on the queue. After one pass of \<^verbatim>\<open>MySender.run\<close> on the
  clock that is set back by 120 seconds between the readings for start and for stale, the
  event on the queue has start 16:00:00 and stale 15:59:00.
\<close>

theorem sender_enqueues_stale_before_start:
  \<open>\<exists>s'. MySender_run 1 s_back = Inr s' \<and>
      queue s' =
        [''<event version="2.0" type="a-h-A-M-A" uid="name_your_marker" how="m-g" '' @
         ''time="2025-11-03T16:00:00.000000Z" start="2025-11-03T16:00:00.000000Z" '' @
         ''stale="2025-11-03T15:59:00.000000Z">'' @
         ''<point lat="40.781789" lon="-73.968698" hae="0" ce="10" le="10" /></event>'']\<close>
proof -
  obtain s1 where b: "MySender_body s_back = Inr s1"
    and q: "queue s1 = (if queue_full s_back then tl (queue s_back) else queue s_back) @
              [fst (gen_cot s_back)]"
    using MySender_body_fields [of s_back] by blast
  have "queue s1 = [fst (gen_cot s_back)]"
    unfolding q by (simp add: s_back_def queue_full_def)
  with b show ?thesis
    by (simp add: gen_cot_bytes_back)
qed

text \<open>
  C5, as stated, fails: not every pass logs the item it took. On the queue
  \<^verbatim>\<open>[b"\xc3"]\<close> the worker takes the item, \<^verbatim>\<open>data.decode()\<close> raises, and nothing is logged.
\<close>

theorem receiver_takes_item_without_logging_counterexample:
  "queue_get (s_ex\<lparr>queue := [[CHR 0xC3]]\<rparr>) =
     Some ([CHR 0xC3], s_ex\<lparr>queue := [], trace := [Get [CHR 0xC3]]\<rparr>) \<and>
   MyReceiver_handle_data [CHR 0xC3] (s_ex\<lparr>queue := [], trace := [Get [CHR 0xC3]]\<rparr>) =
     Inl UnicodeDecodeError \<and>
   MyReceiver_run (s_ex\<lparr>queue := [[CHR 0xC3]]\<rparr>) =
     Raised UnicodeDecodeError (s_ex\<lparr>queue := [], trace := [Get [CHR 0xC3]]\<rparr>)"
proof -
  have "MyReceiver_run (s_ex\<lparr>queue := [[CHR 0xC3]]\<rparr>) =
     Raised UnicodeDecodeError (s_ex\<lparr>queue := [], trace := [Get [CHR 0xC3]]\<rparr>)"
    by (subst MyReceiver_run_item [where data = "[CHR 0xC3]" and q = "[]"])
       (simp_all add: s_ex_def)
  then show ?thesis
    by (simp add: queue_get_def MyReceiver_handle_data_def s_ex_def)
qed

text \<open>
  C5, amended. In every pass of the loop of \<^verbatim>\<open>MyReceiver.run\<close> the worker first waits for an
  item. On an empty queue \<open>queue_get\<close> yields nothing and the worker does nothing; the wait
  suspends this worker only: the sender can make its pass, which puts its event on its
  queue, and whatever step the process takes, the receiver stays alive with nothing taken
  and nothing logged. With an item \<open>data\<close> at the head of the queue that is valid UTF-8, the
  worker takes the item, then decodes it and logs the text, and the loop goes on with the
  rest of the queue; this pass is a step of the process.
\<close>

theorem receiver_waits_then_handles:
  "(queue r = [] \<longrightarrow>
      queue_get r = None \<and> MyReceiver_run r = Waiting r \<and>
      (\<exists>s'. step (Live s, Live r) (Live s', Live r) \<and>
         trace s' =
           trace s @ [Now (readings s (reads s)), Now (readings s (reads s + 1)),
                      Now (readings s (reads s + 2)),
                      LogInfo ''Sending:\<newline>%s\<newline>'' (map of_char (fst (gen_cot s))),
                      Put (fst (gen_cot s)), Sleep 5]) \<and>
      (\<forall>p. step (Live s, Live r) p \<longrightarrow> (\<exists>r'. snd p = Live r' \<and> trace r' = trace r))) \<and>
   (queue r = data # q \<and> utf8_decode data = Inr text \<longrightarrow>
      queue_get r = Some (data, r\<lparr>queue := q, trace := trace r @ [Get data]\<rparr>) \<and>
      MyReceiver_run r =
        MyReceiver_run (r\<lparr>queue := q,
          trace := trace r @ [Get data, LogInfo ''Received:\<newline>%s\<newline>'' text]\<rparr>) \<and>
      step (Live s, Live r)
        (Live s, Live (r\<lparr>queue := q,
          trace := trace r @ [Get data, LogInfo ''Received:\<newline>%s\<newline>'' text]\<rparr>)))"
proof (intro conjI impI)
  assume e: "queue r = []"
  show "queue_get r = None" using e by (simp add: queue_get_def)
  show "MyReceiver_run r = Waiting r" using e by (rule MyReceiver_run_empty)
  obtain s1 where b: "MySender_body s = Inr s1"
    and t: "trace s1 =
           trace s @ [Now (readings s (reads s)), Now (readings s (reads s + 1)),
                      Now (readings s (reads s + 2)),
                      LogInfo ''Sending:\<newline>%s\<newline>'' (map of_char (fst (gen_cot s))),
                      Put (fst (gen_cot s)), Sleep 5]"
    using MySender_body_fields [of s] by blast
  from step.sender [OF b] t
  show "\<exists>s'. step (Live s, Live r) (Live s', Live r) \<and>
         trace s' =
           trace s @ [Now (readings s (reads s)), Now (readings s (reads s + 1)),
                      Now (readings s (reads s + 2)),
                      LogInfo ''Sending:\<newline>%s\<newline>'' (map of_char (fst (gen_cot s))),
                      Put (fst (gen_cot s)), Sleep 5]"
    by blast
  show "\<forall>p. step (Live s, Live r) p \<longrightarrow> (\<exists>r'. snd p = Live r' \<and> trace r' = trace r)"
    using e step_receiver_waiting by blast
next
  assume c: "queue r = data # q \<and> utf8_decode data = Inr text"
  then have g: "queue_get r = Some (data, r\<lparr>queue := q, trace := trace r @ [Get data]\<rparr>)"
    by (simp add: queue_get_def)
  then show "queue_get r = Some (data, r\<lparr>queue := q, trace := trace r @ [Get data]\<rparr>)" .
  show "MyReceiver_run r =
        MyReceiver_run (r\<lparr>queue := q,
          trace := trace r @ [Get data, LogInfo ''Received:\<newline>%s\<newline>'' text]\<rparr>)"
    using c by (subst MyReceiver_run_item [where data = data and q = q]) simp_all
  have "MyReceiver_handle_data data (r\<lparr>queue := q, trace := trace r @ [Get data]\<rparr>) =
        Inr (r\<lparr>queue := q,
          trace := trace r @ [Get data, LogInfo ''Received:\<newline>%s\<newline>'' text]\<rparr>)"
    using c by (simp add: MyReceiver_handle_data_def logger_info_def)
  with g show "step (Live s, Live r)
        (Live s, Live (r\<lparr>queue := q,
          trace := trace r @ [Get data, LogInfo ''Received:\<newline>%s\<newline>'' text]\<rparr>))"
    by (rule step.receiver)
qed

theorem receiver_waits_then_handles_witness:
  "queue s_ex = [] \<and> queue_get s_ex = None \<and> MyReceiver_run s_ex = Waiting s_ex \<and>
   (\<exists>s'. step (Live s_ex, Live s_ex) (Live s', Live s_ex) \<and> trace s' \<noteq> trace s_ex) \<and>
   queue (s_ex\<lparr>queue := [''<event />'']\<rparr>) = [''<event />''] \<and>
   utf8_decode ''<event />'' = Inr [60, 101, 118, 101, 110, 116, 32, 47, 62] \<and>
   MyReceiver_run (s_ex\<lparr>queue := [''<event />'']\<rparr>) =
     Waiting (s_ex\<lparr>queue := [],
       trace := [Get ''<event />'',
                 LogInfo ''Received:\<newline>%s\<newline>'' [60, 101, 118, 101, 110, 116, 32, 47, 62]]\<rparr>) \<and>
   step (Live s_ex, Live (s_ex\<lparr>queue := [''<event />'']\<rparr>))
     (Live s_ex, Live (s_ex\<lparr>queue := [],
       trace := [Get ''<event />'',
                 LogInfo ''Received:\<newline>%s\<newline>'' [60, 101, 118, 101, 110, 116, 32, 47, 62]]\<rparr>))"
proof -
  have q0: "queue s_ex = []" by (simp add: s_ex_def)
  have t0: "trace s_ex = []" by (simp add: s_ex_def)
  have q1: "queue (s_ex\<lparr>queue := [''<event />'']\<rparr>) = ''<event />'' # [] \<and>
            utf8_decode ''<event />'' = Inr [60, 101, 118, 101, 110, 116, 32, 47, 62]"
    using decode_event_ex by simp
  note a = receiver_waits_then_handles [of s_ex s_ex]
  note b = receiver_waits_then_handles
    [of "s_ex\<lparr>queue := [''<event />'']\<rparr>" s_ex "''<event />''" "[]"
        "[60, 101, 118, 101, 110, 116, 32, 47, 62]"]
  note c = receiver_waits_then_handles
    [of "s_ex\<lparr>queue := [],
       trace := [Get ''<event />'',
                 LogInfo ''Received:\<newline>%s\<newline>'' [60, 101, 118, 101, 110, 116, 32, 47, 62]]\<rparr>" s_ex]
  from a q0 have 1: "queue_get s_ex = None" "MyReceiver_run s_ex = Waiting s_ex"
    "\<exists>s'. step (Live s_ex, Live s_ex) (Live s', Live s_ex) \<and> trace s' \<noteq> trace s_ex"
    by (blast, blast, auto)
  from c have 2: "MyReceiver_run (s_ex\<lparr>queue := [],
       trace := [Get ''<event />'',
                 LogInfo ''Received:\<newline>%s\<newline>'' [60, 101, 118, 101, 110, 116, 32, 47, 62]]\<rparr>) =
     Waiting (s_ex\<lparr>queue := [],
       trace := [Get ''<event />'',
                 LogInfo ''Received:\<newline>%s\<newline>'' [60, 101, 118, 101, 110, 116, 32, 47, 62]]\<rparr>)"
    by simp
  from b q1 have 3: "MyReceiver_run (s_ex\<lparr>queue := [''<event />'']\<rparr>) =
     Waiting (s_ex\<lparr>queue := [],
       trace := [Get ''<event />'',
                 LogInfo ''Received:\<newline>%s\<newline>'' [60, 101, 118, 101, 110, 116, 32, 47, 62]]\<rparr>)"
    "step (Live s_ex, Live (s_ex\<lparr>queue := [''<event />'']\<rparr>))
     (Live s_ex, Live (s_ex\<lparr>queue := [],
       trace := [Get ''<event />'',
                 LogInfo ''Received:\<newline>%s\<newline>'' [60, 101, 118, 101, 110, 116, 32, 47, 62]]\<rparr>))"
    by (simp_all add: t0 2 del: utf8_decode.simps)
  from 1 3 q0 q1 show ?thesis by simp
qed




text \<open>
  C7. Two calls of one generator, from any two states, build elements that agree in
  everything but the values of time, start and stale, and return their serialisations;
  a call changes nothing but the clock, which it reads three times: queue,
  configuration and the clock's future readings are as before.
\<close>

theorem generators_deterministic_up_to_timestamps:
  "without_times (fst (tak_pong_root s)) = without_times (fst (tak_pong_root s')) \<and>
   without_times (fst (gen_cot_root s)) = without_times (fst (gen_cot_root s')) \<and>
   tak_pong s = (tostring (fst (tak_pong_root s)),
     s\<lparr>reads := reads s + 3,
       trace := trace s @ [Now (readings s (reads s)), Now (readings s (reads s + 1)),
                           Now (readings s (reads s + 2))]\<rparr>) \<and>
   gen_cot s = (tostring (fst (gen_cot_root s)),
     s\<lparr>reads := reads s + 3,
       trace := trace s @ [Now (readings s (reads s)), Now (readings s (reads s + 1)),
                           Now (readings s (reads s + 2))]\<rparr>)"
  by (simp add: tak_pong_root_eq gen_cot_root_eq tak_pong_def gen_cot_def without_times_def
      three_reads_def)

text \<open>
  C8. The bytes that \<open>tak_pong\<close> returns are the serialisation of an \<^verbatim>\<open>event\<close> element with
  exactly the seven attributes version, type, uid, how, time, start and stale, in this
  order, and without child elements: the heartbeat of type \<^verbatim>\<open>t-x-d-d\<close> has no \<^verbatim>\<open>point\<close>.
\<close>

theorem tak_pong_seven_attributes_no_children:
  \<open>fst (tak_pong s) = tostring (fst (tak_pong_root s)) \<and>
   tag (fst (tak_pong_root s)) = ''event'' \<and>
   map fst (attrib (fst (tak_pong_root s))) =
     [''version'', ''type'', ''uid'', ''how'', ''time'', ''start'', ''stale''] \<and>
   map_of (attrib (fst (tak_pong_root s))) ''type'' = Some ''t-x-d-d'' \<and>
   children (fst (tak_pong_root s)) = [] \<and>
   fst (tak_pong s) =
     ''<event version="2.0" type="t-x-d-d" uid="takPong" how="m-g" time="'' @
     strftime (readings s (reads s)) @ ''" start="'' @ strftime (readings s (reads s + 1)) @
     ''" stale="'' @ strftime (readings s (reads s + 2) + 3600000000) @ ''" />''\<close>
proof -
  have "fst (tak_pong s) = tostring (fst (tak_pong_root s))"
    by (simp add: tak_pong_def split_beta)
  then show ?thesis
    using tak_pong_bytes [of s] by (simp add: tak_pong_root_eq)
qed


text \<open>
  C10. Whatever bytes \<open>data\<close> are, \<open>handle_data\<close> of \<^verbatim>\<open>MySerializer\<close> and of \<^verbatim>\<open>MySender\<close>
  passes exactly \<open>data\<close> to \<open>put_queue\<close>, and the newest item of the queue is then \<open>data\<close>,
  unchanged; in a pass of either loop, the item that arrives on the queue is byte for
  byte what the generator returned.
\<close>

theorem handle_data_enqueues_data_unchanged:
  "(\<exists>older. queue (MySerializer_handle_data data s) = older @ [data]) \<and>
   trace (MySerializer_handle_data data s) = trace s @ [Put data] \<and>
   (\<exists>older. queue (MySender_handle_data data s) = older @ [data]) \<and>
   trace (MySender_handle_data data s) = trace s @ [Put data] \<and>
   (\<exists>older. queue (MySerializer_body s) = older @ [fst (tak_pong s)]) \<and>
   (\<exists>s' older. MySender_body s = Inr s' \<and> queue s' = older @ [fst (gen_cot s)])"
proof -
  have "\<exists>s' older. MySender_body s = Inr s' \<and> queue s' = older @ [fst (gen_cot s)]"
    using MySender_body_fields [of s] by blast
  then show ?thesis
    by (simp add: MySerializer_handle_data_def MySender_handle_data_def put_queue_def
        MySerializer_body_eq)
qed

end
